theory Spec2Isabelle
  imports Complex_Main "HOL-Library.Multiset"
begin

section \<open>Text\<close>

text \<open>
  The script works on Python \<open>str\<close> values. They are modelled as Isabelle strings, a
  character standing for the code point of the same number (0 to 255). The operations below
  are the ones \<open>script.py\<close> calls, with the behaviour Python gives them on such text.
\<close>

text \<open>\<open>str.isspace\<close> on one character: the separators of \<open>str.split()\<close> and the
  characters that \<open>int()\<close> and \<open>float()\<close> strip.\<close>

definition is_space :: "char \<Rightarrow> bool" where
  "is_space c =
     (let n = (of_char c :: nat)
      in (9 \<le> n \<and> n \<le> 13) \<or> (28 \<le> n \<and> n \<le> 32) \<or> n = 133 \<or> n = 160)"

definition is_digit :: "char \<Rightarrow> bool" where
  "is_digit c = (48 \<le> (of_char c :: nat) \<and> (of_char c :: nat) \<le> 57)"

definition digit_val :: "char \<Rightarrow> nat" where
  "digit_val c = of_char c - 48"

text \<open>\<open>str.lower\<close>: the letters A to Z and the upper-case letters of the upper half
  (192 to 222 without the multiplication sign 215) move 32 places up, which sets one bit.\<close>

fun lower_char :: "char \<Rightarrow> char" where
  "lower_char (Char b0 b1 b2 b3 b4 b5 b6 b7) =
     (let n = (of_char (Char b0 b1 b2 b3 b4 b5 b6 b7) :: nat)
      in if (65 \<le> n \<and> n \<le> 90) \<or> (192 \<le> n \<and> n \<le> 222 \<and> n \<noteq> 215)
         then Char b0 b1 b2 b3 b4 True b6 b7
         else Char b0 b1 b2 b3 b4 b5 b6 b7)"

definition str_lower :: "string \<Rightarrow> string" where
  "str_lower s = map lower_char s"

text \<open>\<open>s.startswith(p)\<close> is \<open>startswith p s\<close>, and \<open>sub in s\<close> is \<open>contains sub s\<close>.\<close>

fun startswith :: "string \<Rightarrow> string \<Rightarrow> bool" where
  "startswith [] s = True"
| "startswith (p # ps) [] = False"
| "startswith (p # ps) (c # cs) = (p = c \<and> startswith ps cs)"

fun contains :: "string \<Rightarrow> string \<Rightarrow> bool" where
  "contains sub [] = (sub = [])"
| "contains sub (c # cs) = (startswith sub (c # cs) \<or> contains sub cs)"

text \<open>
  \<open>s.split(sep)\<close> cuts at the occurrences of \<open>sep\<close> found from left to right, none
  overlapping the one before. Python refuses an empty separator; the script passes literals
  only, none of them empty, and the function is meant for those.
\<close>

fun str_split :: "string \<Rightarrow> string \<Rightarrow> string list" where
  "str_split sep [] = [[]]"
| "str_split sep (c # cs) =
     (if startswith sep (c # cs) then [] # str_split sep (drop (length sep - 1) cs)
      else (case str_split sep cs of
              [] \<Rightarrow> [[c]]
            | piece # pieces \<Rightarrow> (c # piece) # pieces))"

text \<open>\<open>s.split()\<close>: the maximal runs of characters that are not white space.\<close>

function str_split_ws :: "string \<Rightarrow> string list" where
  "str_split_ws [] = []"
| "str_split_ws (c # cs) =
     (if is_space c then str_split_ws cs
      else takeWhile (\<lambda>x. \<not> is_space x) (c # cs)
             # str_split_ws (dropWhile (\<lambda>x. \<not> is_space x) cs))"
  by pat_completeness auto
termination
  by (relation "measure length") (auto simp: le_imp_less_Suc length_dropWhile_le)

text \<open>\<open>s.replace(old, new)\<close> for a non-empty \<open>old\<close>: every occurrence, left to right.\<close>

fun str_replace :: "string \<Rightarrow> string \<Rightarrow> string \<Rightarrow> string" where
  "str_replace old new [] = []"
| "str_replace old new (c # cs) =
     (if startswith old (c # cs) then new @ str_replace old new (drop (length old - 1) cs)
      else c # str_replace old new cs)"

definition strip :: "string \<Rightarrow> string" where
  "strip s = rev (dropWhile is_space (rev (dropWhile is_space s)))"

text \<open>
  \<open>repr\<close> of a string, which Python puts into the messages of \<open>int()\<close> and
  \<open>float()\<close>: double quotes when the text has a single quote and no double quote, single
  quotes otherwise; the quote and the backslash escaped, tab, newline and carriage return by
  letter, every other unprintable character as \<open>\xhh\<close>.
\<close>

definition hex_digit :: "nat \<Rightarrow> char" where
  "hex_digit n = ''0123456789abcdef'' ! n"

definition printable :: "char \<Rightarrow> bool" where
  "printable c =
     (let n = (of_char c :: nat) in (32 \<le> n \<and> n < 127) \<or> (161 \<le> n \<and> n \<noteq> 173))"

definition repr_char :: "char \<Rightarrow> char \<Rightarrow> string" where
  "repr_char q c =
     (if c = q \<or> c = CHR 0x5C then [CHR 0x5C, c]
      else if c = CHR 0x09 then [CHR 0x5C, CHR ''t'']
      else if c = CHR 0x0A then [CHR 0x5C, CHR ''n'']
      else if c = CHR 0x0D then [CHR 0x5C, CHR ''r'']
      else if \<not> printable c
        then [CHR 0x5C, CHR ''x'', hex_digit (of_char c div 16), hex_digit (of_char c mod 16)]
      else [c])"

definition repr :: "string \<Rightarrow> string" where
  "repr s =
     (let q = (if CHR 0x27 \<in> set s \<and> CHR 0x22 \<notin> set s then CHR 0x22 else CHR 0x27)
      in q # concat (map (repr_char q) s) @ [q])"

section \<open>Exceptions\<close>

text \<open>
  The exceptions that can travel through \<open>ping_host\<close>. A raise is the left summand
  of a result. \<open>ValueError\<close> and \<open>OtherError\<close> carry the text that \<open>str(e)\<close>
  gives; \<open>OtherError\<close> is any other subclass of \<open>Exception\<close>, as running the
  child process may raise.
\<close>

datatype exn =
    TimeoutExpired
  | IndexError
  | ValueError string
  | OverflowError
  | ZeroDivisionError
  | OtherError string

definition bind :: "exn + 'a \<Rightarrow> ('a \<Rightarrow> exn + 'b) \<Rightarrow> exn + 'b" where
  "bind r f = (case r of Inl x \<Rightarrow> Inl x | Inr v \<Rightarrow> f v)"

text \<open>\<open>xs[i]\<close> for an index that is not negative.\<close>

definition index :: "'a list \<Rightarrow> nat \<Rightarrow> exn + 'a" where
  "index xs i = (if i < length xs then Inr (xs ! i) else Inl IndexError)"

section \<open>Numbers\<close>

text \<open>
  \<open>int(s)\<close>: white space stripped at both ends, one optional sign, then digits, where
  single underscores may stand between two digits. (The limit that recent interpreters put on
  the number of digits is not modelled.)
\<close>

fun digitpart_ok :: "string \<Rightarrow> bool" where
  "digitpart_ok [] = False"
| "digitpart_ok [c] = is_digit c"
| "digitpart_ok (c # d # cs) =
     (is_digit c \<and> (if d = CHR ''_'' then digitpart_ok cs else digitpart_ok (d # cs)))"

definition digits_value :: "string \<Rightarrow> nat" where
  "digits_value s = foldl (\<lambda>a c. 10 * a + digit_val c) 0 (filter is_digit s)"

definition is_sign :: "char \<Rightarrow> bool" where
  "is_sign c = (c = CHR ''+'' \<or> c = CHR ''-'')"

definition unsigned :: "string \<Rightarrow> string" where
  "unsigned t = (case t of [] \<Rightarrow> [] | c # r \<Rightarrow> if is_sign c then r else c # r)"

definition negative :: "string \<Rightarrow> bool" where
  "negative t = (case t of [] \<Rightarrow> False | c # r \<Rightarrow> c = CHR ''-'')"

definition py_int :: "string \<Rightarrow> exn + int" where
  "py_int s =
     (let t = strip s; body = unsigned t
      in if digitpart_ok body
         then Inr (if negative t then - int (digits_value body) else int (digits_value body))
         else Inl (ValueError (''invalid literal for int() with base 10: '' @ take 200 (repr s))))"

text \<open>
  A Python \<open>float\<close> is one of the two infinities, not-a-number, or a finite value. The
  finite values are modelled by the rationals they stand for: rounding to 64 bits is left
  out, so a decimal literal denotes exactly its value and arithmetic is exact.
\<close>

datatype pyfloat = Fin rat | PInf | NInf | NaN

text \<open>\<open>cut P s\<close> is the text before the first character with \<open>P\<close>, and the text
  after that character when there is one.\<close>

definition cut :: "(char \<Rightarrow> bool) \<Rightarrow> string \<Rightarrow> string \<times> string option" where
  "cut P s =
     (takeWhile (\<lambda>c. \<not> P c) s,
      case dropWhile (\<lambda>c. \<not> P c) s of [] \<Rightarrow> None | c # r \<Rightarrow> Some r)"

definition mantissa_ok :: "string \<Rightarrow> string option \<Rightarrow> bool" where
  "mantissa_ok ip fp =
     (case fp of
        None \<Rightarrow> digitpart_ok ip
      | Some f \<Rightarrow> (ip = [] \<or> digitpart_ok ip) \<and> (f = [] \<or> digitpart_ok f)
                  \<and> \<not> (ip = [] \<and> f = []))"

definition exponent_ok :: "string option \<Rightarrow> bool" where
  "exponent_ok ex = (case ex of None \<Rightarrow> True | Some e \<Rightarrow> digitpart_ok (unsigned e))"

definition exponent_value :: "string option \<Rightarrow> int" where
  "exponent_value ex =
     (case ex of
        None \<Rightarrow> 0
      | Some e \<Rightarrow> if negative e then - int (digits_value (unsigned e))
                  else int (digits_value (unsigned e)))"

definition scale10 :: "rat \<Rightarrow> int \<Rightarrow> rat" where
  "scale10 m e = (if 0 \<le> e then m * 10 ^ nat e else m / 10 ^ nat (- e))"

text \<open>
  \<open>float(s)\<close>: after the sign either \<open>inf\<close>, \<open>infinity\<close> or \<open>nan\<close> in any case, or
  digits with an optional point and an optional exponent.
\<close>

definition py_float :: "string \<Rightarrow> exn + pyfloat" where
  "py_float s =
     (let t = strip s; body = unsigned t; name = str_lower body
      in if name = ''inf'' \<or> name = ''infinity'' then Inr (if negative t then NInf else PInf)
         else if name = ''nan'' then Inr NaN
         else
           (let (m, ex) = cut (\<lambda>c. c = CHR ''e'' \<or> c = CHR ''E'') body;
                (ip, fp) = cut (\<lambda>c. c = CHR ''.'') m;
                frac = (case fp of None \<Rightarrow> [] | Some f \<Rightarrow> f);
                mag = scale10 (of_nat (digits_value (ip @ frac)))
                        (exponent_value ex - int (length (filter is_digit frac)))
            in if mantissa_ok ip fp \<and> exponent_ok ex
               then Inr (Fin (if negative t then - mag else mag))
               else Inl (ValueError (''could not convert string to float: '' @ repr s))))"

text \<open>\<open>str(i)\<close> for an integer.\<close>

definition digit_char :: "nat \<Rightarrow> char" where
  "digit_char n = ''0123456789'' ! n"

function nat_digits :: "nat \<Rightarrow> string" where
  "nat_digits n =
     (if n < 10 then [digit_char n] else nat_digits (n div 10) @ [digit_char (n mod 10)])"
  by pat_completeness auto
termination
  by (relation "measure id") auto

declare nat_digits.simps [simp del]

definition str_int :: "int \<Rightarrow> string" where
  "str_int i = (if i < 0 then CHR ''-'' # nat_digits (nat (- i)) else nat_digits (nat i))"

text \<open>
  \<open>a / b\<close> on integers gives a float, and raises OverflowError when the quotient, rounded
  to the nearest float, is beyond the largest one.
\<close>

definition true_div :: "int \<Rightarrow> int \<Rightarrow> exn + rat" where
  "true_div a b =
     (if b = 0 then Inl ZeroDivisionError
      else if 2 ^ 1024 - 2 ^ 970 \<le> \<bar>of_int a / of_int b :: rat\<bar> then Inl OverflowError
      else Inr (of_int a / of_int b))"

text \<open>
  \<open>statistics.mean\<close> on floats: StatisticsError, a ValueError, on no data; not-a-number
  or an infinity as float addition gives them; the exact mean otherwise.
\<close>

definition fin_val :: "pyfloat \<Rightarrow> rat" where
  "fin_val x = (case x of Fin q \<Rightarrow> q | _ \<Rightarrow> 0)"

definition mean :: "pyfloat list \<Rightarrow> exn + pyfloat" where
  "mean xs =
     (if xs = [] then Inl (ValueError ''mean requires at least one data point'')
      else if NaN \<in> set xs \<or> (PInf \<in> set xs \<and> NInf \<in> set xs) then Inr NaN
      else if PInf \<in> set xs then Inr PInf
      else if NInf \<in> set xs then Inr NInf
      else Inr (Fin (sum_list (map fin_val xs) / of_nat (length xs))))"

section \<open>The probe executor\<close>

definition PING_COUNT :: int where
  "PING_COUNT = 40"

definition TIMEOUT_MS :: int where
  "TIMEOUT_MS = 400"

text \<open>
  What lies outside the script: the platform, what running a command does (the call raises
  an exception of the given text, because the command cannot be started or its output
  cannot be decoded, or the child runs for some seconds and exits), and for each host the
  text of \<open>f"{time.time()-start_time:.2f}"\<close> at the moment \<open>ping_host\<close> builds its
  result.
\<close>

record completed_process =
  returncode :: int
  stdout :: string
  stderr :: string

datatype child = Raises string | Exits rat completed_process

record env =
  windows :: bool
  os_run :: "string list \<Rightarrow> child"
  elapsed :: "string \<Rightarrow> string"

text \<open>
  \<open>subprocess.run(command, stdout=PIPE, stderr=PIPE, text=True, timeout=...)\<close>: with a
  timeout, a child that runs longer is killed and TimeoutExpired is raised; without one the
  call waits for the child.
\<close>

definition subprocess_run ::
  "(string list \<Rightarrow> child) \<Rightarrow> string list \<Rightarrow> rat option \<Rightarrow> exn + completed_process" where
  "subprocess_run os cmd timeout =
     (case os cmd of
        Raises m \<Rightarrow> Inl (OtherError m)
      | Exits d cp \<Rightarrow>
          (case timeout of
             None \<Rightarrow> Inr cp
           | Some t \<Rightarrow> if t < d then Inl TimeoutExpired else Inr cp))"

text \<open>Lines 26 to 36; \<open>str(TIMEOUT_MS / 1000)\<close> is the text \<open>0.4\<close>.\<close>

definition command :: "env \<Rightarrow> string \<Rightarrow> string list" where
  "command e host =
     [''ping'', if windows e then ''-n'' else ''-c'', str_int PING_COUNT]
     @ (if windows e then [''-w'', str_int TIMEOUT_MS] else [''-W'', ''0.4''])
     @ [host]"

definition execute_ping :: "env \<Rightarrow> string \<Rightarrow> exn + completed_process" where
  "execute_ping e host = subprocess_run (os_run e) (command e host) None"

section \<open>The output parser\<close>

text \<open>The dictionary that \<open>analyze_ping\<close> returns.\<close>

record stats =
  times :: "pyfloat list"
  received :: int
  lost :: int
  error :: "string option"
  raw_output :: string

text \<open>Lines 49 to 53, on the lower-cased output.\<close>

definition parse_received :: "string \<Rightarrow> exn + int" where
  "parse_received output =
     (if contains ''received ='' output then
        bind (index (str_split ''received = '' output) 1)
          (\<lambda>rest. bind (index (str_split '','' rest) 0) py_int)
      else if contains ''packets transmitted'' output then
        bind (index (str_split ''packets transmitted, '' output) 1)
          (\<lambda>rest. bind (index (str_split '' received,'' rest) 0) py_int)
      else Inr 0)"

text \<open>Lines 60 and 61, the body of the \<open>try\<close>.\<close>

definition parse_time :: "string \<Rightarrow> exn + pyfloat" where
  "parse_time line =
     bind (index (str_split ''time='' line) 1)
       (\<lambda>rest. bind (index (str_split_ws rest) 0)
          (\<lambda>word. py_float (str_replace ''ms'' [] word)))"

text \<open>
  The loop of lines 57 to 63 over the remaining lines, \<open>acc\<close> being \<open>stats['times']\<close>.
  The handler takes ValueError and IndexError; anything else would leave the loop.
  (\<open>debug_print\<close> only writes to the console and is left out throughout.)
\<close>

fun scan_times :: "string list \<Rightarrow> pyfloat list \<Rightarrow> exn + pyfloat list" where
  "scan_times [] acc = Inr acc"
| "scan_times (line # rest) acc =
     (if contains ''time='' line then
        (case parse_time line of
           Inr t \<Rightarrow> scan_times rest (acc @ [t])
         | Inl (ValueError m) \<Rightarrow> scan_times rest acc
         | Inl IndexError \<Rightarrow> scan_times rest acc
         | Inl other \<Rightarrow> Inl other)
      else scan_times rest acc)"

definition analyze_ping :: "string \<Rightarrow> string \<Rightarrow> exn + stats" where
  "analyze_ping out host =
     (let output = str_lower out
      in bind (parse_received output)
           (\<lambda>r. bind (scan_times (str_split [CHR 0x0A] output) [])
              (\<lambda>ts. Inr \<lparr>times = ts, received = r, lost = PING_COUNT - r,
                            error = None, raw_output = output\<rparr>)))"

section \<open>The host prober\<close>

record host_result =
  server :: string
  sent :: int
  received :: int
  lost :: int
  packet_loss :: pyfloat
  average_ping :: pyfloat
  status :: string
  response_time :: string

definition error_result :: "string \<Rightarrow> string \<Rightarrow> host_result" where
  "error_result host err =
     \<lparr>server = host, sent = PING_COUNT, received = 0, lost = PING_COUNT,
      packet_loss = Fin 100, average_ping = Fin 0,
      status = ''Error: '' @ err, response_time = ''N/A''\<rparr>"

text \<open>The body of the \<open>try\<close> in \<open>ping_host\<close>, lines 70 to 85.\<close>

definition ping_try :: "env \<Rightarrow> string \<Rightarrow> exn + host_result" where
  "ping_try e host =
     bind (execute_ping e host)
       (\<lambda>result.
          if returncode result \<noteq> 0
          then Inr (error_result host
                      (''Ping failed (code '' @ str_int (returncode result) @ '')''))
          else
            bind (analyze_ping (stdout result) host)
              (\<lambda>st. bind (true_div (stats.lost st) PING_COUNT)
                 (\<lambda>q. bind (if times st \<noteq> [] then mean (times st) else Inr (Fin 0))
                    (\<lambda>avg. Inr \<lparr>server = host, sent = PING_COUNT,
                                  received = stats.received st, lost = stats.lost st,
                                  packet_loss = Fin (q * 100), average_ping = avg,
                                  status = (if stats.received st = 0 then ''Failed''
                                            else ''Success''),
                                  response_time = elapsed e host @ ''s''\<rparr>))))"

text \<open>
  The two handlers, lines 86 to 91: TimeoutExpired first, then every other exception with
  its \<open>str(e)\<close>.
\<close>

fun ping_except :: "string \<Rightarrow> exn \<Rightarrow> host_result" where
  "ping_except host TimeoutExpired = error_result host ''Timeout''"
| "ping_except host IndexError = error_result host ''list index out of range''"
| "ping_except host (ValueError m) = error_result host m"
| "ping_except host OverflowError =
     error_result host ''integer division result too large for a float''"
| "ping_except host ZeroDivisionError = error_result host ''division by zero''"
| "ping_except host (OtherError m) = error_result host m"

definition ping_host :: "env \<Rightarrow> string \<Rightarrow> host_result" where
  "ping_host e host =
     (case ping_try e host of Inr r \<Rightarrow> r | Inl x \<Rightarrow> ping_except host x)"

section \<open>The batch coordinator\<close>








section \<open>Vocabulary of the statements\<close>




text \<open>A probe has a fault when running the command raises, the child exits with a code
  other than 0, the parser raises, or the division of line 81 overflows.\<close>

definition probe_fault :: "env \<Rightarrow> string \<Rightarrow> bool" where
  "probe_fault e host =
     (case execute_ping e host of
        Inl x \<Rightarrow> True
      | Inr cp \<Rightarrow>
          returncode cp \<noteq> 0 \<or>
          (case analyze_ping (stdout cp) host of
             Inl x \<Rightarrow> True
           | Inr st \<Rightarrow> isl (true_div (stats.lost st) PING_COUNT)))"

text \<open>The samples that one line contributes.\<close>

definition line_samples :: "string \<Rightarrow> pyfloat list" where
  "line_samples line =
     (if contains ''time='' line
      then (case parse_time line of Inr t \<Rightarrow> [t] | Inl x \<Rightarrow> [])
      else [])"

text \<open>An environment for the examples: the child exits with the given code and output.\<close>

definition exits_with :: "int \<Rightarrow> string \<Rightarrow> env" where
  "exits_with code out =
     \<lparr>windows = False,
      os_run = (\<lambda>cmd. Exits 1 \<lparr>returncode = code, stdout = out, stderr = []\<rparr>),
      elapsed = (\<lambda>host. ''1.00'')\<rparr>"

section \<open>Results of one probe\<close>

lemma ping_except_error: "\<exists>m. ping_except host x = error_result host m"
  by (cases x) auto

lemma analyze_ping_lost:
  "analyze_ping out host = Inr st \<Longrightarrow> stats.lost st = PING_COUNT - stats.received st"
  by (auto simp: analyze_ping_def bind_def Let_def split: sum.splits)


lemma mean_nonempty: "xs \<noteq> [] \<Longrightarrow> \<exists>m. mean xs = Inr m"
  by (simp add: mean_def)

lemma ping_try_Inr:
  assumes "ping_try e host = Inr r"
  obtains (refused) cp where "execute_ping e host = Inr cp" and "returncode cp \<noteq> 0"
      and "r = error_result host (''Ping failed (code '' @ str_int (returncode cp) @ '')'')"
  | (parsed) cp st q avg where "execute_ping e host = Inr cp" and "returncode cp = 0"
      and "analyze_ping (stdout cp) host = Inr st"
      and "true_div (stats.lost st) PING_COUNT = Inr q"
      and "r = \<lparr>server = host, sent = PING_COUNT,
                 received = stats.received st, lost = stats.lost st,
                 packet_loss = Fin (q * 100), average_ping = avg,
                 status = (if stats.received st = 0 then ''Failed'' else ''Success''),
                 response_time = elapsed e host @ ''s''\<rparr>"
proof (cases "execute_ping e host")
  case (Inl x)
  with assms show ?thesis by (simp add: ping_try_def bind_def)
next
  case cp: (Inr cp)
  show ?thesis
  proof (cases "returncode cp = 0")
    case False
    with assms cp refused show ?thesis by (simp add: ping_try_def bind_def)
  next
    case True
    with assms cp obtain st where st: "analyze_ping (stdout cp) host = Inr st"
      by (cases "analyze_ping (stdout cp) host") (simp_all add: ping_try_def bind_def)
    with assms cp True obtain q where q: "true_div (stats.lost st) PING_COUNT = Inr q"
      by (cases "true_div (stats.lost st) PING_COUNT") (simp_all add: ping_try_def bind_def)
    obtain avg where avg: "(if times st \<noteq> [] then mean (times st) else Inr (Fin 0)) = Inr avg"
      using mean_nonempty[of "times st"] by (cases "times st = []") auto
    from assms cp True st q avg
    have "r = \<lparr>server = host, sent = PING_COUNT,
                 received = stats.received st, lost = stats.lost st,
                 packet_loss = Fin (q * 100), average_ping = avg,
                 status = (if stats.received st = 0 then ''Failed'' else ''Success''),
                 response_time = elapsed e host @ ''s''\<rparr>"
      by (simp add: ping_try_def bind_def)
    with cp True st q parsed show ?thesis by blast
  qed
qed

lemma ping_try_Inl:
  assumes "ping_try e host = Inl x"
  shows "execute_ping e host = Inl x \<or>
         (\<exists>cp. execute_ping e host = Inr cp \<and> returncode cp = 0 \<and>
            (analyze_ping (stdout cp) host = Inl x \<or>
             (\<exists>st. analyze_ping (stdout cp) host = Inr st \<and>
                   true_div (stats.lost st) PING_COUNT = Inl x)))"
proof (cases "execute_ping e host")
  case (Inl y)
  with assms show ?thesis by (simp add: ping_try_def bind_def)
next
  case cp: (Inr cp)
  show ?thesis
  proof (cases "analyze_ping (stdout cp) host")
    case (Inl y)
    with assms cp show ?thesis by (simp add: ping_try_def bind_def split: if_splits)
  next
    case st: (Inr st)
    obtain avg where avg: "(if times st \<noteq> [] then mean (times st) else Inr (Fin 0)) = Inr avg"
      using mean_nonempty[of "times st"] by (cases "times st = []") auto
    show ?thesis
    proof (cases "true_div (stats.lost st) PING_COUNT")
      case (Inl y)
      with assms cp st show ?thesis by (simp add: ping_try_def bind_def split: if_splits)
    next
      case (Inr q)
      with assms cp st avg show ?thesis by (simp add: ping_try_def bind_def split: if_splits)
    qed
  qed
qed

text \<open>
  Claim C2. In every result that \<open>ping_host\<close> or \<open>error_result\<close> produces, the
  packets received and the packets lost add up to the packets sent, and the packets sent are
  the fixed count 40.
\<close>

theorem sent_received_lost:
  "host_result.received (ping_host e host) + host_result.lost (ping_host e host)
     = sent (ping_host e host)
   \<and> sent (ping_host e host) = 40
   \<and> host_result.received (error_result host err) + host_result.lost (error_result host err)
     = sent (error_result host err)
   \<and> sent (error_result host err) = 40"
proof -
  have err: "host_result.received (error_result host m) + host_result.lost (error_result host m)
               = sent (error_result host m) \<and> sent (error_result host m) = 40" for m
    by (simp add: error_result_def PING_COUNT_def)
  have "host_result.received (ping_host e host) + host_result.lost (ping_host e host)
          = sent (ping_host e host) \<and> sent (ping_host e host) = 40"
  proof (cases "ping_try e host")
    case (Inl x)
    then have "ping_host e host = ping_except host x" by (simp add: ping_host_def)
    with ping_except_error[of host x] err show ?thesis by auto
  next
    case (Inr r)
    then have ph: "ping_host e host = r" by (simp add: ping_host_def)
    from Inr show ?thesis
    proof (cases rule: ping_try_Inr)
      case (refused cp)
      with err ph show ?thesis by simp
    next
      case (parsed cp st q avg)
      with analyze_ping_lost[OF parsed(3)] ph show ?thesis by (simp add: PING_COUNT_def)
    qed
  qed
  with err show ?thesis by simp
qed


text \<open>
  Claim C7. When the child exits with a code \<open>N\<close> other than 0, \<open>ping_host\<close> returns
  the error result with status \<open>Error: Ping failed (code N)\<close>, nothing received, all 40
  packets lost, average ping 0 and response time \<open>N/A\<close>. The captured output does not
  occur in the result: it is not parsed.
\<close>

theorem nonzero_exit_result:
  assumes "execute_ping e host = Inr cp" and "returncode cp \<noteq> 0"
  shows "ping_host e host =
           \<lparr>server = host, sent = 40, received = 0, lost = 40,
            packet_loss = Fin 100, average_ping = Fin 0,
            status = ''Error: Ping failed (code '' @ str_int (returncode cp) @ '')'',
            response_time = ''N/A''\<rparr>"
  using assms by (simp add: ping_host_def ping_try_def bind_def error_result_def PING_COUNT_def)

theorem nonzero_exit_result_witness:
  "ping_host (exits_with 2 ''received = 38,'') ''h'' =
           \<lparr>server = ''h'', sent = 40, received = 0, lost = 40,
            packet_loss = Fin 100, average_ping = Fin 0,
            status = ''Error: Ping failed (code 2)'',
            response_time = ''N/A''\<rparr>"
proof -
  have run: "execute_ping (exits_with 2 ''received = 38,'') ''h''
               = Inr \<lparr>returncode = 2, stdout = ''received = 38,'', stderr = []\<rparr>"
    by (simp add: execute_ping_def subprocess_run_def exits_with_def)
  have two: "str_int 2 = ''2''"
    by (simp add: str_int_def nat_digits.simps digit_char_def)
  from nonzero_exit_result[OF run] two show ?thesis by simp
qed

lemma py_float_raises: "py_float s = Inl x \<Longrightarrow> \<exists>m. x = ValueError m"
  by (auto simp: py_float_def Let_def split: if_splits prod.splits)


lemma index_raises: "index xs i = Inl x \<Longrightarrow> x = IndexError"
  by (auto simp: index_def split: if_splits)

lemma parse_time_raises: "parse_time line = Inl x \<Longrightarrow> x = IndexError \<or> (\<exists>m. x = ValueError m)"
  by (auto simp: parse_time_def bind_def split: sum.splits dest: index_raises py_float_raises)

lemma scan_times_eq: "scan_times ls acc = Inr (acc @ concat (map line_samples ls))"
proof (induction ls arbitrary: acc)
  case Nil
  show ?case by simp
next
  case (Cons l ls)
  show ?case
  proof (cases "parse_time l")
    case (Inr t)
    then show ?thesis by (simp add: Cons.IH line_samples_def)
  next
    case (Inl x)
    from parse_time_raises[OF Inl] Inl show ?thesis
      by (auto simp: Cons.IH line_samples_def)
  qed
qed


lemma analyze_ping_eq:
  "analyze_ping out host =
     (case parse_received (str_lower out) of
        Inl x \<Rightarrow> Inl x
      | Inr r \<Rightarrow> Inr \<lparr>times = concat (map line_samples (str_split [CHR 0x0A] (str_lower out))),
                      received = r, lost = PING_COUNT - r, error = None,
                      raw_output = str_lower out\<rparr>)"
  by (simp add: analyze_ping_def bind_def Let_def scan_times_eq split: sum.splits)




lemma execute_exits_with:
  "execute_ping (exits_with code out) host = Inr \<lparr>returncode = code, stdout = out, stderr = []\<rparr>"
  by (simp add: execute_ping_def subprocess_run_def exits_with_def)

lemma ping_host_parsed:
  assumes "execute_ping e host = Inr cp" and "returncode cp = 0"
    and "analyze_ping (stdout cp) host = Inr st"
    and "true_div (stats.lost st) PING_COUNT = Inr q"
    and "(if times st \<noteq> [] then mean (times st) else Inr (Fin 0)) = Inr avg"
  shows "ping_host e host =
           \<lparr>server = host, sent = PING_COUNT,
            received = stats.received st, lost = stats.lost st,
            packet_loss = Fin (q * 100), average_ping = avg,
            status = (if stats.received st = 0 then ''Failed'' else ''Success''),
            response_time = elapsed e host @ ''s''\<rparr>"
  using assms by (simp add: ping_host_def ping_try_def bind_def)


section \<open>Status and the timeout handler\<close>

lemma status_error_result: "status (error_result host m) = ''Error: '' @ m"
  by (simp add: error_result_def)

text \<open>
  Claim C1, as the code has it. The status of the result of \<open>ping_host\<close> is
  \<open>Success\<close> exactly when no fault occurred and the received count is not 0 (the code
  compares with 0, so a negative count printed by the child also gives \<open>Success\<close>); it
  is \<open>Failed\<close> exactly when no fault occurred and the count is 0; it is
  \<open>Error: \<close> followed by a reason exactly when a fault occurred; and
  \<open>error_result\<close> always gives such a status.
\<close>

theorem status_classification:
  "(status (ping_host e host) = ''Success'')
     = (\<not> probe_fault e host \<and> host_result.received (ping_host e host) \<noteq> 0)
   \<and> (status (ping_host e host) = ''Failed'')
     = (\<not> probe_fault e host \<and> host_result.received (ping_host e host) = 0)
   \<and> (\<exists>reason. status (ping_host e host) = ''Error: '' @ reason) = probe_fault e host
   \<and> status (error_result host err) = ''Error: '' @ err"
proof (cases "ping_try e host")
  case (Inl x)
  from ping_try_Inl[OF Inl] have f: "probe_fault e host"
    by (auto simp: probe_fault_def)
  from Inl have "ping_host e host = ping_except host x" by (simp add: ping_host_def)
  with ping_except_error[of host x] obtain m where "ping_host e host = error_result host m"
    by auto
  with f show ?thesis by (simp add: status_error_result)
next
  case (Inr r)
  then have ph: "ping_host e host = r" by (simp add: ping_host_def)
  from Inr show ?thesis
  proof (cases rule: ping_try_Inr)
    case (refused cp)
    then have "probe_fault e host" by (simp add: probe_fault_def)
    with refused show ?thesis unfolding ph by (simp add: status_error_result)
  next
    case (parsed cp st q avg)
    then have "\<not> probe_fault e host" by (simp add: probe_fault_def)
    with parsed(5) show ?thesis unfolding ph by (simp add: status_error_result)
  qed
qed


lemma analyze_ping_value:
  assumes "str_lower out = low" and "parse_received low = Inr r"
    and "concat (map line_samples (str_split [CHR 0x0A] low)) = ts"
  shows "analyze_ping out host =
           Inr \<lparr>times = ts, received = r, lost = PING_COUNT - r, error = None, raw_output = low\<rparr>"
  using assms by (simp only: analyze_ping_eq sum.case)


lemma probe_fault_parsed:
  assumes "execute_ping e host = Inr cp" and "returncode cp = 0"
    and "analyze_ping (stdout cp) host = Inr st"
    and "true_div (stats.lost st) PING_COUNT = Inr q"
  shows "\<not> probe_fault e host"
  using assms by (simp add: probe_fault_def)

lemma analyze_38:
  "analyze_ping ''Received = 38,'' host =
     Inr \<lparr>times = [], received = 38, lost = 2, error = None, raw_output = ''received = 38,''\<rparr>"
proof -
  have l: "str_lower ''Received = 38,'' = ''received = 38,''" by code_simp
  have p: "parse_received ''received = 38,'' = Inr 38" by code_simp
  have t: "concat (map line_samples (str_split [CHR 0x0A] ''received = 38,'')) = []" by code_simp
  from analyze_ping_value[OF l p t] show ?thesis by (simp add: PING_COUNT_def)
qed

lemma analyze_minus_1:
  "analyze_ping ''Received = -1,'' host =
     Inr \<lparr>times = [], received = - 1, lost = 41, error = None, raw_output = ''received = -1,''\<rparr>"
proof -
  have l: "str_lower ''Received = -1,'' = ''received = -1,''" by code_simp
  have p: "parse_received ''received = -1,'' = Inr (- 1)" by code_simp
  have t: "concat (map line_samples (str_split [CHR 0x0A] ''received = -1,'')) = []" by code_simp
  from analyze_ping_value[OF l p t] show ?thesis by (simp add: PING_COUNT_def)
qed

lemma ping_host_38:
  "ping_host (exits_with 0 ''Received = 38,'') ''h'' =
     \<lparr>server = ''h'', sent = 40, received = 38, lost = 2, packet_loss = Fin 5,
      average_ping = Fin 0, status = ''Success'', response_time = ''1.00s''\<rparr>
   \<and> \<not> probe_fault (exits_with 0 ''Received = 38,'') ''h''"
proof -
  have td: "true_div 2 PING_COUNT = Inr (1 / 20)"
    by (simp add: true_div_def PING_COUNT_def)
  have "ping_host (exits_with 0 ''Received = 38,'') ''h'' =
     \<lparr>server = ''h'', sent = 40, received = 38, lost = 2, packet_loss = Fin 5,
      average_ping = Fin 0, status = ''Success'', response_time = ''1.00s''\<rparr>"
    using ping_host_parsed[of "exits_with 0 ''Received = 38,''" "''h''",
        OF execute_exits_with _ _ _ _, of _ "1 / 20" "Fin 0"] analyze_38 td
    by (simp add: PING_COUNT_def exits_with_def)
  moreover have "\<not> probe_fault (exits_with 0 ''Received = 38,'') ''h''"
    using probe_fault_parsed[of "exits_with 0 ''Received = 38,''" "''h''",
        OF execute_exits_with _ _ _, of _ "1 / 20"] analyze_38 td
    by simp
  ultimately show ?thesis by simp
qed

text \<open>
  The classification at a child that exits with code 0 and reports 38 packets received.
\<close>

theorem status_classification_witness:
  "\<not> probe_fault (exits_with 0 ''Received = 38,'') ''h''
   \<and> host_result.received (ping_host (exits_with 0 ''Received = 38,'') ''h'') = 38
   \<and> status (ping_host (exits_with 0 ''Received = 38,'') ''h'') = ''Success''"
proof -
  from ping_host_38 have nf: "\<not> probe_fault (exits_with 0 ''Received = 38,'') ''h''"
    and rc: "host_result.received (ping_host (exits_with 0 ''Received = 38,'') ''h'') = 38"
    by simp_all
  with status_classification[of "exits_with 0 ''Received = 38,''" "''h''"]
  have "status (ping_host (exits_with 0 ''Received = 38,'') ''h'') = ''Success''" by simp
  with nf rc show ?thesis by simp
qed

text \<open>
  A child that exits with code 0 and prints \<open>Received = -1,\<close>: no fault, a received
  count of -1, which is not greater than 0, and yet the status \<open>Success\<close>.
\<close>

theorem success_with_negative_count:
  "\<not> probe_fault (exits_with 0 ''Received = -1,'') ''h''
   \<and> status (ping_host (exits_with 0 ''Received = -1,'') ''h'') = ''Success''
   \<and> host_result.received (ping_host (exits_with 0 ''Received = -1,'') ''h'') = - 1"
proof -
  have td: "true_div 41 PING_COUNT = Inr (41 / 40)"
    by (simp add: true_div_def PING_COUNT_def)
  have "ping_host (exits_with 0 ''Received = -1,'') ''h'' =
     \<lparr>server = ''h'', sent = 40, received = - 1, lost = 41, packet_loss = Fin (205 / 2),
      average_ping = Fin 0, status = ''Success'', response_time = ''1.00s''\<rparr>"
    using ping_host_parsed[of "exits_with 0 ''Received = -1,''" "''h''",
        OF execute_exits_with _ _ _ _, of _ "41 / 40" "Fin 0"] analyze_minus_1 td
    by (simp add: PING_COUNT_def exits_with_def)
  moreover have "\<not> probe_fault (exits_with 0 ''Received = -1,'') ''h''"
    using probe_fault_parsed[of "exits_with 0 ''Received = -1,''" "''h''",
        OF execute_exits_with _ _ _, of _ "41 / 40"] analyze_minus_1 td
    by simp
  ultimately show ?thesis by simp
qed


section \<open>The received count\<close>






























section \<open>The round-trip samples\<close>















section \<open>The order of the results\<close>






















end
